theory Spec2Isabelle
  imports Main "HOL-Library.Sublist"
begin

section \<open>Request context (packages/core/xaven-context.ts)\<close>

text \<open>
  \<^verbatim>\<open>XavenContextData\<close> is the value kept in the context store: a correlation id and an
  optional user id.
\<close>

record XavenContextData =
  correlationId :: string
  userId :: "string option"

text \<open>
  \<^verbatim>\<open>req.headers["x-correlation-id"]\<close> has the type \<^verbatim>\<open>string | string[] | undefined\<close>.
  \<^verbatim>\<open>(req as any).userId\<close> is read as an optional string.
\<close>

datatype header_value = HeaderAbsent | HeaderString string | HeaderArray "string list"

record request =
  x_correlation_id :: header_value
  req_userId :: "string option"

text \<open>
  \<^verbatim>\<open>String.prototype.trim\<close> removes white space and line terminators from both ends.
  Of the code points ECMAScript counts as such, the ones a \<^typ>\<open>char\<close> can hold are
  U+0009 to U+000D, U+0020 and U+00A0.
\<close>

definition is_ws :: "char \<Rightarrow> bool" where
  "is_ws c = (of_char c \<in> {9, 10, 11, 12, 13, 32, 160 :: nat})"

definition trim :: "string \<Rightarrow> string" where
  "trim s = rev (dropWhile is_ws (rev (dropWhile is_ws s)))"

text \<open>
  The store is an \<^verbatim>\<open>AsyncLocalStorage\<close>. What \<^verbatim>\<open>getStore()\<close> returns at a point of the
  program is passed to the code running there as an explicit argument: \<open>None\<close> outside
  every \<^verbatim>\<open>run\<close> scope, \<open>Some ctx\<close> in the callback of \<^verbatim>\<open>run(ctx, callback)\<close>.
\<close>

type_synonym context_store = "XavenContextData option"

definition store_run :: "XavenContextData \<Rightarrow> (context_store \<Rightarrow> 'a) \<Rightarrow> 'a" where
  "store_run ctx callback = callback (Some ctx)"

text \<open>
  \<^verbatim>\<open>xavenContextMiddleware(req, _res, next)\<close>. The value that \<^verbatim>\<open>randomUUID()\<close> of the
  platform's \<^verbatim>\<open>crypto\<close> module would return is the parameter \<open>randomUUID\<close>;
  \<^verbatim>\<open>x || undefined\<close> turns the falsy empty string into \<^verbatim>\<open>undefined\<close>.
\<close>

definition xavenContextMiddleware ::
  "request \<Rightarrow> string \<Rightarrow> (context_store \<Rightarrow> 'a) \<Rightarrow> 'a" where
  "xavenContextMiddleware req randomUUID next =
     (let incomingCorrelationId = x_correlation_id req;
          cid = (case incomingCorrelationId of
                   HeaderString s \<Rightarrow>
                     if length (trim s) > 0 then trim s else randomUUID
                 | _ \<Rightarrow> randomUUID);
          uid = (case req_userId req of
                   Some u \<Rightarrow> if u \<noteq> [] then Some u else None
                 | None \<Rightarrow> None);
          contextData = \<lparr>correlationId = cid, userId = uid\<rparr>
      in store_run contextData next)"

definition getXavenContext :: "context_store \<Rightarrow> XavenContextData option" where
  "getXavenContext store = store"

definition getCorrelationId :: "context_store \<Rightarrow> string option" where
  "getCorrelationId store = map_option correlationId store"

definition getUserId :: "context_store \<Rightarrow> string option" where
  "getUserId store = Option.bind store userId"

text \<open>
  The textual form of a version 4 UUID: 36 characters, hyphens at positions 8, 13, 18 and
  23, lower-case hexadecimal digits elsewhere, the version digit \<open>4\<close> at position 14 and a
  variant digit among \<open>8\<close>, \<open>9\<close>, \<open>a\<close>, \<open>b\<close> at position 19.
\<close>

definition is_hex :: "char \<Rightarrow> bool" where
  "is_hex c = (c \<in> set ''0123456789abcdef'')"

definition uuid_v4_format :: "string \<Rightarrow> bool" where
  "uuid_v4_format s =
     (length s = 36 \<and>
      list_all is_hex (take 8 s) \<and> s ! 8 = CHR ''-'' \<and>
      list_all is_hex (take 4 (drop 9 s)) \<and> s ! 13 = CHR ''-'' \<and>
      s ! 14 = CHR ''4'' \<and>
      list_all is_hex (take 3 (drop 15 s)) \<and> s ! 18 = CHR ''-'' \<and>
      s ! 19 \<in> set ''89ab'' \<and>
      list_all is_hex (take 3 (drop 20 s)) \<and> s ! 23 = CHR ''-'' \<and>
      list_all is_hex (drop 24 s))"

section \<open>Domain clients (packages/lib)\<close>

text \<open>
  A rejected promise carries an \<^verbatim>\<open>Error\<close> object, of which the code reads \<^verbatim>\<open>message\<close>.
\<close>

datatype js_error = Error (message: string)

text \<open>
  A number inside a template literal is written in decimal. The retry ceiling is an
  integral \<^verbatim>\<open>number\<close>.
\<close>

definition digit_char :: "nat \<Rightarrow> char" where
  "digit_char d = char_of (48 + d)"

function show_nat :: "nat \<Rightarrow> string" where
  "show_nat n =
     (if n < 10 then [digit_char n] else show_nat (n div 10) @ [digit_char (n mod 10)])"
  by pat_completeness auto
termination
  by (relation "measure (\<lambda>n. n)") auto

declare show_nat.simps [simp del]

definition show_int :: "int \<Rightarrow> string" where
  "show_int i = (if i < 0 then CHR ''-'' # show_nat (nat (- i)) else show_nat (nat i))"

text \<open>
  \<^verbatim>\<open>a || b\<close> on an optional string: \<^verbatim>\<open>undefined\<close> and the empty string are falsy.
\<close>

definition js_or :: "string option \<Rightarrow> string \<Rightarrow> string" where
  "js_or a b = (case a of Some s \<Rightarrow> if s \<noteq> [] then s else b | None \<Rightarrow> b)"

text \<open>
  What a client method finds around it when it is called: the value \<^verbatim>\<open>getStore()\<close> of
  the context store would return there, and the value the next \<^verbatim>\<open>uuidv4()\<close> returns.
\<close>

record js_env =
  env_store :: context_store
  env_uuidv4 :: string

text \<open>
  What a client method does: the request bodies it passed to \<^verbatim>\<open>client.post\<close>, in order,
  and how its promise settles (\<open>Inl\<close>: rejected with the error, \<open>Inr\<close>: resolved).
  The \<^verbatim>\<open>console\<close> output is not part of the model.
\<close>

record ('p, 'r) client_run =
  posted :: "'p list"
  settled :: "js_error + 'r"

subsection \<open>XavenAiEngine (xaven-ai-engine.ts)\<close>

record XavenAiEngineConfig =
  endpointUrl :: string
  requestTimeoutMs :: int
  defaultLanguage :: string
  retryCount :: int
  additionalHeaders :: "(string \<times> string) list"

text \<open>Numeric fields of the exchanged objects are carried, never computed with.\<close>

record XavenAiParsedResult =
  category :: string
  brand :: "string option"
  maxBudget :: "int option"
  shippingUrgency :: "string option"

text \<open>The object literal \<^verbatim>\<open>{ correlationId, userQuery, language }\<close> passed to \<^verbatim>\<open>post\<close>.\<close>

record parse_body =
  pb_correlationId :: string
  pb_userQuery :: string
  pb_language :: string

text \<open>
  The \<^verbatim>\<open>while\<close> loop of \<^verbatim>\<open>parseUserQuery\<close>. \<open>post i body\<close> is the outcome of the
  invocation of \<^verbatim>\<open>this.state.client.post("/", body)\<close> that has \<open>i\<close> invocations before
  it. The loop variables are \<open>attempts\<close> and \<open>lastError\<close>; \<open>sent\<close> collects the bodies.
\<close>

function parseUserQuery_loop ::
  "XavenAiEngineConfig \<Rightarrow> (nat \<Rightarrow> parse_body \<Rightarrow> js_error + XavenAiParsedResult) \<Rightarrow>
   string \<Rightarrow> string \<Rightarrow> string \<Rightarrow> nat \<Rightarrow> js_error option \<Rightarrow> parse_body list \<Rightarrow>
   (parse_body, XavenAiParsedResult) client_run" where
  "parseUserQuery_loop config post cid userQuery language attempts lastError sent =
     (if int attempts < retryCount config then
        (let body = \<lparr>pb_correlationId = cid, pb_userQuery = userQuery, pb_language = language\<rparr>
         in case post (length sent) body of
              Inr data \<Rightarrow> \<lparr>posted = sent @ [body], settled = Inr data\<rparr>
            | Inl err \<Rightarrow>
                parseUserQuery_loop config post cid userQuery language
                  (attempts + 1) (Some err) (sent @ [body]))
      else
        \<lparr>posted = sent,
         settled = Inl (Error (''[XavenAiEngine] parseUserQuery failed after '' @
                      show_int (retryCount config) @ '' attempts. Last error: '' @
                      (case lastError of Some e \<Rightarrow> message e | None \<Rightarrow> ''undefined'')))\<rparr>)"
  by pat_completeness auto
termination
  by (relation "measure (\<lambda>(config, post, cid, userQuery, language, attempts, lastError, sent).
                  nat (retryCount config - int attempts))") auto

declare parseUserQuery_loop.simps [simp del]

definition parseUserQuery ::
  "XavenAiEngineConfig \<Rightarrow> (nat \<Rightarrow> parse_body \<Rightarrow> js_error + XavenAiParsedResult) \<Rightarrow>
   js_env \<Rightarrow> string \<Rightarrow> string option \<Rightarrow> (parse_body, XavenAiParsedResult) client_run" where
  "parseUserQuery config post env userQuery preferredLanguage =
     (let cid = env_uuidv4 env;
          language = js_or preferredLanguage (defaultLanguage config)
      in parseUserQuery_loop config post cid userQuery language 0 None [])"

subsection \<open>XavenPurchaseOptimizer (xaven-purchase-optimizer.ts)\<close>

text \<open>
  The configuration has fields of the same names as the engine's; here they carry the
  prefix \<open>po_\<close>.
\<close>

record XavenPurchaseOptimizerConfig =
  po_endpointUrl :: string
  po_requestTimeoutMs :: int
  po_concurrencyOverride :: "int option"
  po_enableCacheInvalidation :: bool
  po_retryCount :: int
  po_additionalHeaders :: "(string \<times> string) list"

record XavenOptimizedOffer =
  partnerName :: string
  productName :: string
  price :: int
  shippingCost :: int
  shippingDays :: int
  offer_brand :: "string option"
  totalCost :: int
  link :: string

record XavenOptimizationResult =
  bestOffer :: "XavenOptimizedOffer option"
  offers :: "XavenOptimizedOffer list"

text \<open>
  The object literal \<^verbatim>\<open>{ correlationId, userId, payload: { aiParsed, concurrency,
  cacheInvalidation } }\<close> passed to \<^verbatim>\<open>post\<close>.
\<close>

record optimize_payload =
  aiParsed :: XavenAiParsedResult
  concurrency :: "int option"
  cacheInvalidation :: bool

record optimize_body =
  ob_correlationId :: string
  ob_userId :: "string option"
  ob_payload :: optimize_payload

function optimizePurchase_loop ::
  "XavenPurchaseOptimizerConfig \<Rightarrow>
   (nat \<Rightarrow> optimize_body \<Rightarrow> js_error + XavenOptimizationResult) \<Rightarrow>
   string \<Rightarrow> XavenAiParsedResult \<Rightarrow> string option \<Rightarrow> nat \<Rightarrow> js_error option \<Rightarrow>
   optimize_body list \<Rightarrow> (optimize_body, XavenOptimizationResult) client_run" where
  "optimizePurchase_loop config post cid parsed uid attempts lastError sent =
     (if int attempts < po_retryCount config then
        (let body = \<lparr>ob_correlationId = cid, ob_userId = uid,
                     ob_payload = \<lparr>aiParsed = parsed,
                                   concurrency = po_concurrencyOverride config,
                                   cacheInvalidation = po_enableCacheInvalidation config\<rparr>\<rparr>
         in case post (length sent) body of
              Inr data \<Rightarrow> \<lparr>posted = sent @ [body], settled = Inr data\<rparr>
            | Inl err \<Rightarrow>
                optimizePurchase_loop config post cid parsed uid
                  (attempts + 1) (Some err) (sent @ [body]))
      else
        \<lparr>posted = sent,
         settled = Inl (Error (''[XavenPurchaseOptimizer] optimizePurchase failed after '' @
                      show_int (po_retryCount config) @ '' attempts. Last error: '' @
                      (case lastError of Some e \<Rightarrow> message e | None \<Rightarrow> ''undefined'')))\<rparr>)"
  by pat_completeness auto
termination
  by (relation "measure (\<lambda>(config, post, cid, parsed, uid, attempts, lastError, sent).
                  nat (po_retryCount config - int attempts))") auto

declare optimizePurchase_loop.simps [simp del]

definition optimizePurchase ::
  "XavenPurchaseOptimizerConfig \<Rightarrow>
   (nat \<Rightarrow> optimize_body \<Rightarrow> js_error + XavenOptimizationResult) \<Rightarrow>
   js_env \<Rightarrow> XavenAiParsedResult \<Rightarrow> string option \<Rightarrow>
   (optimize_body, XavenOptimizationResult) client_run" where
  "optimizePurchase config post env parsed uid =
     (let cid = env_uuidv4 env
      in optimizePurchase_loop config post cid parsed uid 0 None [])"


section \<open>Cached fetch (packages/core/xaven-factory.ts)\<close>

text \<open>
  The body of a response is a JSON value. The code tests a cached body for truthiness:
  \<^verbatim>\<open>null\<close>, \<^verbatim>\<open>false\<close>, \<^verbatim>\<open>0\<close> and the empty string are falsy, every array and object is
  truthy. Numbers are integral here; a fraction is truthy like any number but zero.
\<close>

datatype json =
  JNull | JBool bool | JNumber int | JString string
  | JArray "json list" | JObject "(string \<times> json) list"

fun truthy :: "json \<Rightarrow> bool" where
  "truthy JNull = False"
| "truthy (JBool b) = b"
| "truthy (JNumber n) = (n \<noteq> 0)"
| "truthy (JString s) = (s \<noteq> [])"
| "truthy (JArray xs) = True"
| "truthy (JObject kvs) = True"

text \<open>
  Modelled from the spec: \<^verbatim>\<open>cache\<close> is an instance of the \<^verbatim>\<open>node-cache\<close> package, which is
  not among the sources. An entry holds a value and the instant it expires; it counts as
  absent once \<open>now \<ge> expiresAt\<close>, which a lookup evaluates; a write stores the value with
  the expiry \<open>now + TTL\<close>. Instants are in milliseconds, \<^verbatim>\<open>stdTTL\<close> is 10 seconds.
\<close>

record cache_entry =
  entry_value :: json
  expiresAt :: int

type_synonym node_cache = "string \<rightharpoonup> cache_entry"

definition stdTTL :: int where
  "stdTTL = 10"

definition cache_get :: "node_cache \<Rightarrow> int \<Rightarrow> string \<Rightarrow> json option" where
  "cache_get cache now key =
     (case cache key of
        None \<Rightarrow> None
      | Some e \<Rightarrow> if now \<ge> expiresAt e then None else Some (entry_value e))"

definition cache_set :: "node_cache \<Rightarrow> int \<Rightarrow> string \<Rightarrow> json \<Rightarrow> node_cache" where
  "cache_set cache now key v =
     cache(key \<mapsto> \<lparr>entry_value = v, expiresAt = now + stdTTL * 1000\<rparr>)"

text \<open>
  What one call of \<^verbatim>\<open>fetchWithCache\<close> does: the URLs it passed to \<^verbatim>\<open>axios.get\<close>, the number
  of tasks it handed to \<^verbatim>\<open>limit\<close> (the concurrency gate), how its promise settles, and
  the cache it leaves.
\<close>

record fetch_run =
  fetched :: "string list"
  scheduled :: nat
  resolved :: "js_error + json"
  cache_after :: node_cache

text \<open>
  The task \<^verbatim>\<open>async () => { ... }\<close> handed to \<^verbatim>\<open>limit\<close>: it awaits \<^verbatim>\<open>axios.get(url)\<close>; a
  rejection leaves the task at once, a response is written to the cache at the instant
  \<open>arrival\<close> and returned.
\<close>

definition fetch_task ::
  "(string \<Rightarrow> js_error + json) \<Rightarrow> node_cache \<Rightarrow> int \<Rightarrow> string \<Rightarrow>
   (js_error + json) \<times> node_cache" where
  "fetch_task axios_get cache arrival url =
     (case axios_get url of
        Inl err \<Rightarrow> (Inl err, cache)
      | Inr data \<Rightarrow> (Inr data, cache_set cache arrival url data))"

text \<open>
  \<^verbatim>\<open>fetchWithCache(url)\<close>, called at the instant \<open>now\<close>. \<^verbatim>\<open>if (cached)\<close> holds when the
  lookup finds a value and the value is truthy; an absent value is \<^verbatim>\<open>undefined\<close>, which is
  falsy. Otherwise the call returns \<open>limited\<close>, the promise of \<^verbatim>\<open>limit(task)\<close>: with no
  other task in the gate, \<^verbatim>\<open>limit\<close> runs the task and settles as the task does.
\<close>

definition fetchWithCache ::
  "(string \<Rightarrow> js_error + json) \<Rightarrow> node_cache \<Rightarrow> int \<Rightarrow> int \<Rightarrow> string \<Rightarrow> fetch_run" where
  "fetchWithCache axios_get cache now arrival url =
     (let limited =
            (let (outcome, cache') = fetch_task axios_get cache arrival url
             in \<lparr>fetched = [url], scheduled = 1, resolved = outcome,
                 cache_after = cache'\<rparr>)
      in case cache_get cache now url of
           Some cached \<Rightarrow>
             if truthy cached then
               \<lparr>fetched = [], scheduled = 0, resolved = Inr cached, cache_after = cache\<rparr>
             else limited
         | None \<Rightarrow> limited)"


section \<open>Properties of the request context\<close>

text \<open>
  C8: \<^verbatim>\<open>getXavenContext\<close> has no failing branch. Outside every run scope it returns the
  absent value, and so do \<^verbatim>\<open>getCorrelationId\<close> and \<^verbatim>\<open>getUserId\<close>; inside the scope of
  \<^verbatim>\<open>run(c, ...)\<close> the three return the context \<open>c\<close>, its correlation id and its user id.
\<close>

theorem context_accessors_total:
  "getXavenContext None = None \<and>
   getCorrelationId None = None \<and>
   getUserId None = None \<and>
   store_run c getXavenContext = Some c \<and>
   store_run c getCorrelationId = Some (correlationId c) \<and>
   store_run c getUserId = userId c"
  by (simp add: getXavenContext_def getCorrelationId_def getUserId_def store_run_def)

text \<open>
  C7: when the \<^verbatim>\<open>x-correlation-id\<close> header is a string whose trimmed value is not empty,
  the context seeded by the middleware carries exactly the trimmed value. In every other
  case (header absent, an array, empty or white space only) it carries the identifier
  generated by \<^verbatim>\<open>randomUUID()\<close>, which has the version 4 format whenever the platform's
  generator delivers one.
\<close>

theorem middleware_correlation_id:
  "(x_correlation_id req = HeaderString s \<and> trim s \<noteq> [] \<longrightarrow>
      xavenContextMiddleware req u getCorrelationId = Some (trim s)) \<and>
   ((\<forall>t. x_correlation_id req = HeaderString t \<longrightarrow> trim t = []) \<and> uuid_v4_format u \<longrightarrow>
      (\<exists>c. xavenContextMiddleware req u getCorrelationId = Some c \<and> c = u \<and>
           uuid_v4_format c))"
  by (cases "x_correlation_id req")
     (simp_all add: xavenContextMiddleware_def store_run_def getCorrelationId_def Let_def)

theorem middleware_correlation_id_witness:
  "trim ''  req-42  '' \<noteq> [] \<and>
   xavenContextMiddleware \<lparr>x_correlation_id = HeaderString ''  req-42  '', req_userId = None\<rparr>
      ''3f2b8c1e-9d4a-4e7b-a1c5-0f6d2e8b7a94'' getCorrelationId = Some ''req-42'' \<and>
   trim ''   '' = [] \<and>
   uuid_v4_format ''3f2b8c1e-9d4a-4e7b-a1c5-0f6d2e8b7a94'' \<and>
   xavenContextMiddleware \<lparr>x_correlation_id = HeaderString ''   '', req_userId = None\<rparr>
      ''3f2b8c1e-9d4a-4e7b-a1c5-0f6d2e8b7a94'' getCorrelationId
      = Some ''3f2b8c1e-9d4a-4e7b-a1c5-0f6d2e8b7a94''"
proof -
  have a: "trim ''  req-42  '' = ''req-42''" by code_simp
  have b: "trim ''   '' = []" by code_simp
  have c: "uuid_v4_format ''3f2b8c1e-9d4a-4e7b-a1c5-0f6d2e8b7a94''" by code_simp
  show ?thesis
    using middleware_correlation_id
            [of "\<lparr>x_correlation_id = HeaderString ''  req-42  '', req_userId = None\<rparr>"
                "''  req-42  ''" "''3f2b8c1e-9d4a-4e7b-a1c5-0f6d2e8b7a94''"]
          middleware_correlation_id
            [of "\<lparr>x_correlation_id = HeaderString ''   '', req_userId = None\<rparr>"
                "''x''" "''3f2b8c1e-9d4a-4e7b-a1c5-0f6d2e8b7a94''"]
          a b c
    by simp
qed

section \<open>The retry loops\<close>

text \<open>
  Four facts about the loop of \<^verbatim>\<open>parseUserQuery\<close>, each for the one body \<open>b\<close> that the loop
  posts. When the next \<open>k\<close> invocations fail and the one after them succeeds below the
  ceiling, the loop posts \<open>k + 1\<close> more bodies and resolves with that success. When \<open>n\<close>
  attempts remain and the next \<open>n\<close> invocations fail, it posts \<open>n\<close> more bodies and rejects
  with the terminal error, whose text names the ceiling and the message of the error
  seen last; started afresh, that makes as many invocations as the ceiling. Whatever the
  remote end answers, the bodies posted are copies of \<open>b\<close>, at least one below the ceiling.
\<close>

lemma parseUserQuery_loop_success:
  assumes b: "b = \<lparr>pb_correlationId = cid, pb_userQuery = q, pb_language = l\<rparr>"
    and "int (attempts + k) < retryCount config"
    and "\<forall>i<k. isl (post (length sent + i) b)"
    and "post (length sent + k) b = Inr v"
  shows "parseUserQuery_loop config post cid q l attempts lastError sent =
           \<lparr>posted = sent @ replicate (Suc k) b, settled = Inr v\<rparr>"
  using assms(2-)
proof (induction k arbitrary: attempts lastError sent)
  case 0
  then show ?case
    by (subst parseUserQuery_loop.simps) (simp add: b)
next
  case (Suc k)
  from Suc.prems(2) have "isl (post (length sent) b)" by force
  then obtain e where e: "post (length sent) b = Inl e"
    by (cases "post (length sent) b") auto
  have lt: "int attempts < retryCount config" using Suc.prems(1) by simp
  have step: "parseUserQuery_loop config post cid q l attempts lastError sent =
              parseUserQuery_loop config post cid q l (attempts + 1) (Some e) (sent @ [b])"
    by (subst parseUserQuery_loop.simps) (simp add: lt e [unfolded b] b)
  have "parseUserQuery_loop config post cid q l (attempts + 1) (Some e) (sent @ [b]) =
        \<lparr>posted = (sent @ [b]) @ replicate (Suc k) b, settled = Inr v\<rparr>"
  proof (rule Suc.IH)
    show "int (attempts + 1 + k) < retryCount config" using Suc.prems(1) by simp
    show "\<forall>i<k. isl (post (length (sent @ [b]) + i) b)"
      using Suc.prems(2) by (auto simp: less_Suc_eq_0_disj)
    show "post (length (sent @ [b]) + k) b = Inr v" using Suc.prems(3) by simp
  qed
  with step show ?case by (simp add: replicate_app_Cons_same)
qed

lemma parseUserQuery_loop_exhaust:
  assumes b: "b = \<lparr>pb_correlationId = cid, pb_userQuery = q, pb_language = l\<rparr>"
    and "retryCount config = int attempts + int n"
    and "\<forall>i<n. isl (post (length sent + i) b)"
  shows "parseUserQuery_loop config post cid q l attempts lastError sent =
     \<lparr>posted = sent @ replicate n b,
      settled = Inl (Error (''[XavenAiEngine] parseUserQuery failed after '' @
                  show_int (retryCount config) @ '' attempts. Last error: '' @
                  (case (if n = 0 then lastError
                         else Some (projl (post (length sent + n - 1) b))) of
                     Some e \<Rightarrow> message e | None \<Rightarrow> ''undefined'')))\<rparr>"
  using assms(2-)
proof (induction n arbitrary: attempts lastError sent)
  case 0
  then show ?case
    by (subst parseUserQuery_loop.simps) simp
next
  case (Suc n)
  from Suc.prems(2) have "isl (post (length sent) b)" by force
  then obtain e where e: "post (length sent) b = Inl e"
    by (cases "post (length sent) b") auto
  have lt: "int attempts < retryCount config" using Suc.prems(1) by simp
  have step: "parseUserQuery_loop config post cid q l attempts lastError sent =
              parseUserQuery_loop config post cid q l (attempts + 1) (Some e) (sent @ [b])"
    by (subst parseUserQuery_loop.simps) (simp add: lt e [unfolded b] b)
  have rest: "parseUserQuery_loop config post cid q l (attempts + 1) (Some e) (sent @ [b]) =
        \<lparr>posted = (sent @ [b]) @ replicate n b,
         settled = Inl (Error (''[XavenAiEngine] parseUserQuery failed after '' @
                  show_int (retryCount config) @ '' attempts. Last error: '' @
                  (case (if n = 0 then Some e
                         else Some (projl (post (length (sent @ [b]) + n - 1) b))) of
                     Some e \<Rightarrow> message e | None \<Rightarrow> ''undefined'')))\<rparr>"
  proof (rule Suc.IH)
    show "retryCount config = int (attempts + 1) + int n" using Suc.prems(1) by simp
    show "\<forall>i<n. isl (post (length (sent @ [b]) + i) b)"
      using Suc.prems(2) by (auto simp: less_Suc_eq_0_disj)
  qed
  show ?case
  proof (cases "n = 0")
    case True
    with step rest e show ?thesis by simp
  next
    case False
    with step rest show ?thesis by (simp add: replicate_app_Cons_same)
  qed
qed

lemma parseUserQuery_exhausted:
  assumes b: "b = \<lparr>pb_correlationId = cid, pb_userQuery = q, pb_language = l\<rparr>"
    and "1 \<le> retryCount config"
    and "\<forall>i. int i < retryCount config \<longrightarrow> isl (post i b)"
  shows "parseUserQuery_loop config post cid q l 0 None [] =
     \<lparr>posted = replicate (nat (retryCount config)) b,
      settled = Inl (Error (''[XavenAiEngine] parseUserQuery failed after '' @
                  show_int (retryCount config) @ '' attempts. Last error: '' @
                  message (projl (post (nat (retryCount config) - 1) b))))\<rparr>"
proof -
  have n: "retryCount config = int 0 + int (nat (retryCount config))" "nat (retryCount config) \<noteq> 0"
    using assms(2) by simp_all
  have f: "\<forall>i<nat (retryCount config). isl (post (length ([] :: parse_body list) + i) b)"
    using assms(3) by auto
  show ?thesis
    using parseUserQuery_loop_exhaust
            [where attempts = 0 and n = "nat (retryCount config)" and sent = "[]"
               and lastError = None and config = config and post = post,
             OF b n(1) f] n(2)
    by (simp only: if_False option.case append_Nil list.size add_0)
qed

lemma parseUserQuery_loop_posted:
  assumes b: "b = \<lparr>pb_correlationId = cid, pb_userQuery = q, pb_language = l\<rparr>"
  shows "\<exists>n. posted (parseUserQuery_loop config post cid q l attempts lastError sent) = sent @ replicate n b \<and>
             (int attempts < retryCount config \<longrightarrow> 0 < n)"
  using b
proof (induction config post cid q l attempts lastError sent arbitrary: b rule: parseUserQuery_loop.induct)
  case (1 config post cid q l attempts lastError sent)
  note b = "1.prems"
  show ?case
  proof (cases "int attempts < retryCount config")
    case False
    then have "posted (parseUserQuery_loop config post cid q l attempts lastError sent) = sent @ replicate 0 b"
      by (subst parseUserQuery_loop.simps) simp
    with False show ?thesis by blast
  next
    case True
    show ?thesis
    proof (cases "post (length sent) b")
      case (Inr v)
      with True have "posted (parseUserQuery_loop config post cid q l attempts lastError sent) =
                      sent @ replicate 1 b"
        by (subst parseUserQuery_loop.simps) (simp add: b [symmetric])
      then show ?thesis by (intro exI [of _ 1]) simp
    next
      case (Inl e)
      from "1.IH" [OF True b Inl b] obtain n where
        n: "posted (parseUserQuery_loop config post cid q l (attempts + 1) (Some e) (sent @ [b])) =
            (sent @ [b]) @ replicate n b" by blast
      from True Inl
      have "parseUserQuery_loop config post cid q l attempts lastError sent =
            parseUserQuery_loop config post cid q l (attempts + 1) (Some e) (sent @ [b])"
        by (subst parseUserQuery_loop.simps) (simp add: b [symmetric])
      with n have "posted (parseUserQuery_loop config post cid q l attempts lastError sent) =
                   sent @ replicate (Suc n) b"
        by (simp add: replicate_app_Cons_same)
      then show ?thesis by (intro exI [of _ "Suc n"]) simp
    qed
  qed
qed


text \<open>The same four facts for the loop of \<^verbatim>\<open>optimizePurchase\<close>.\<close>

lemma optimizePurchase_loop_success:
  assumes b: "b = \<lparr>ob_correlationId = cid, ob_userId = u,
              ob_payload = \<lparr>aiParsed = a, concurrency = po_concurrencyOverride config,
                            cacheInvalidation = po_enableCacheInvalidation config\<rparr>\<rparr>"
    and "int (attempts + k) < po_retryCount config"
    and "\<forall>i<k. isl (post (length sent + i) b)"
    and "post (length sent + k) b = Inr v"
  shows "optimizePurchase_loop config post cid a u attempts lastError sent =
           \<lparr>posted = sent @ replicate (Suc k) b, settled = Inr v\<rparr>"
  using assms(2-)
proof (induction k arbitrary: attempts lastError sent)
  case 0
  then show ?case
    by (subst optimizePurchase_loop.simps) (simp add: b)
next
  case (Suc k)
  from Suc.prems(2) have "isl (post (length sent) b)" by force
  then obtain e where e: "post (length sent) b = Inl e"
    by (cases "post (length sent) b") auto
  have lt: "int attempts < po_retryCount config" using Suc.prems(1) by simp
  have step: "optimizePurchase_loop config post cid a u attempts lastError sent =
              optimizePurchase_loop config post cid a u (attempts + 1) (Some e) (sent @ [b])"
    by (subst optimizePurchase_loop.simps) (simp add: lt e [unfolded b] b)
  have "optimizePurchase_loop config post cid a u (attempts + 1) (Some e) (sent @ [b]) =
        \<lparr>posted = (sent @ [b]) @ replicate (Suc k) b, settled = Inr v\<rparr>"
  proof (rule Suc.IH)
    show "int (attempts + 1 + k) < po_retryCount config" using Suc.prems(1) by simp
    show "\<forall>i<k. isl (post (length (sent @ [b]) + i) b)"
      using Suc.prems(2) by (auto simp: less_Suc_eq_0_disj)
    show "post (length (sent @ [b]) + k) b = Inr v" using Suc.prems(3) by simp
  qed
  with step show ?case by (simp add: replicate_app_Cons_same)
qed

lemma optimizePurchase_loop_exhaust:
  assumes b: "b = \<lparr>ob_correlationId = cid, ob_userId = u,
              ob_payload = \<lparr>aiParsed = a, concurrency = po_concurrencyOverride config,
                            cacheInvalidation = po_enableCacheInvalidation config\<rparr>\<rparr>"
    and "po_retryCount config = int attempts + int n"
    and "\<forall>i<n. isl (post (length sent + i) b)"
  shows "optimizePurchase_loop config post cid a u attempts lastError sent =
     \<lparr>posted = sent @ replicate n b,
      settled = Inl (Error (''[XavenPurchaseOptimizer] optimizePurchase failed after '' @
                  show_int (po_retryCount config) @ '' attempts. Last error: '' @
                  (case (if n = 0 then lastError
                         else Some (projl (post (length sent + n - 1) b))) of
                     Some e \<Rightarrow> message e | None \<Rightarrow> ''undefined'')))\<rparr>"
  using assms(2-)
proof (induction n arbitrary: attempts lastError sent)
  case 0
  then show ?case
    by (subst optimizePurchase_loop.simps) simp
next
  case (Suc n)
  from Suc.prems(2) have "isl (post (length sent) b)" by force
  then obtain e where e: "post (length sent) b = Inl e"
    by (cases "post (length sent) b") auto
  have lt: "int attempts < po_retryCount config" using Suc.prems(1) by simp
  have step: "optimizePurchase_loop config post cid a u attempts lastError sent =
              optimizePurchase_loop config post cid a u (attempts + 1) (Some e) (sent @ [b])"
    by (subst optimizePurchase_loop.simps) (simp add: lt e [unfolded b] b)
  have rest: "optimizePurchase_loop config post cid a u (attempts + 1) (Some e) (sent @ [b]) =
        \<lparr>posted = (sent @ [b]) @ replicate n b,
         settled = Inl (Error (''[XavenPurchaseOptimizer] optimizePurchase failed after '' @
                  show_int (po_retryCount config) @ '' attempts. Last error: '' @
                  (case (if n = 0 then Some e
                         else Some (projl (post (length (sent @ [b]) + n - 1) b))) of
                     Some e \<Rightarrow> message e | None \<Rightarrow> ''undefined'')))\<rparr>"
  proof (rule Suc.IH)
    show "po_retryCount config = int (attempts + 1) + int n" using Suc.prems(1) by simp
    show "\<forall>i<n. isl (post (length (sent @ [b]) + i) b)"
      using Suc.prems(2) by (auto simp: less_Suc_eq_0_disj)
  qed
  show ?case
  proof (cases "n = 0")
    case True
    with step rest e show ?thesis by simp
  next
    case False
    with step rest show ?thesis by (simp add: replicate_app_Cons_same)
  qed
qed

lemma optimizePurchase_exhausted:
  assumes b: "b = \<lparr>ob_correlationId = cid, ob_userId = u,
              ob_payload = \<lparr>aiParsed = a, concurrency = po_concurrencyOverride config,
                            cacheInvalidation = po_enableCacheInvalidation config\<rparr>\<rparr>"
    and "1 \<le> po_retryCount config"
    and "\<forall>i. int i < po_retryCount config \<longrightarrow> isl (post i b)"
  shows "optimizePurchase_loop config post cid a u 0 None [] =
     \<lparr>posted = replicate (nat (po_retryCount config)) b,
      settled = Inl (Error (''[XavenPurchaseOptimizer] optimizePurchase failed after '' @
                  show_int (po_retryCount config) @ '' attempts. Last error: '' @
                  message (projl (post (nat (po_retryCount config) - 1) b))))\<rparr>"
proof -
  have n: "po_retryCount config = int 0 + int (nat (po_retryCount config))" "nat (po_retryCount config) \<noteq> 0"
    using assms(2) by simp_all
  have f: "\<forall>i<nat (po_retryCount config). isl (post (length ([] :: optimize_body list) + i) b)"
    using assms(3) by auto
  show ?thesis
    using optimizePurchase_loop_exhaust
            [where attempts = 0 and n = "nat (po_retryCount config)" and sent = "[]"
               and lastError = None and config = config and post = post,
             OF b n(1) f] n(2)
    by (simp only: if_False option.case append_Nil list.size add_0)
qed

lemma optimizePurchase_loop_posted:
  assumes b: "b = \<lparr>ob_correlationId = cid, ob_userId = u,
              ob_payload = \<lparr>aiParsed = a, concurrency = po_concurrencyOverride config,
                            cacheInvalidation = po_enableCacheInvalidation config\<rparr>\<rparr>"
  shows "\<exists>n. posted (optimizePurchase_loop config post cid a u attempts lastError sent) = sent @ replicate n b \<and>
             (int attempts < po_retryCount config \<longrightarrow> 0 < n)"
  using b
proof (induction config post cid a u attempts lastError sent arbitrary: b rule: optimizePurchase_loop.induct)
  case (1 config post cid a u attempts lastError sent)
  note b = "1.prems"
  show ?case
  proof (cases "int attempts < po_retryCount config")
    case False
    then have "posted (optimizePurchase_loop config post cid a u attempts lastError sent) = sent @ replicate 0 b"
      by (subst optimizePurchase_loop.simps) simp
    with False show ?thesis by blast
  next
    case True
    show ?thesis
    proof (cases "post (length sent) b")
      case (Inr v)
      with True have "posted (optimizePurchase_loop config post cid a u attempts lastError sent) =
                      sent @ replicate 1 b"
        by (subst optimizePurchase_loop.simps) (simp add: b [symmetric])
      then show ?thesis by (intro exI [of _ 1]) simp
    next
      case (Inl e)
      from "1.IH" [OF True b Inl b] obtain n where
        n: "posted (optimizePurchase_loop config post cid a u (attempts + 1) (Some e) (sent @ [b])) =
            (sent @ [b]) @ replicate n b" by blast
      from True Inl
      have "optimizePurchase_loop config post cid a u attempts lastError sent =
            optimizePurchase_loop config post cid a u (attempts + 1) (Some e) (sent @ [b])"
        by (subst optimizePurchase_loop.simps) (simp add: b [symmetric])
      with n have "posted (optimizePurchase_loop config post cid a u attempts lastError sent) =
                   sent @ replicate (Suc n) b"
        by (simp add: replicate_app_Cons_same)
      then show ?thesis by (intro exI [of _ "Suc n"]) simp
    qed
  qed
qed


text \<open>The terminal message is built by concatenation, so its parts occur in it.\<close>

lemma sublist_middle: "sublist n (p @ n @ m @ e)"
  by (rule sublist_appendI)

lemma sublist_end: "sublist e (p @ n @ m @ e)"
proof -
  have "sublist e ((p @ n @ m) @ e)" by (rule sublist_append_leftI)
  then show ?thesis by (simp only: append_assoc)
qed


section \<open>Properties of the domain clients\<close>

text \<open>
  C2: for a retry ceiling of at least 1, when the first \<open>k\<close> invocations of \<^verbatim>\<open>post\<close> fail
  and invocation \<open>k + 1\<close> succeeds, with \<open>k\<close> below the ceiling, \<^verbatim>\<open>parseUserQuery\<close> and
  \<^verbatim>\<open>optimizePurchase\<close> resolve with that success after exactly \<open>k + 1\<close> invocations; when
  every invocation fails they reject after exactly as many invocations as the ceiling.
\<close>

theorem retry_invocation_count:
  assumes "1 \<le> retryCount cfg" and "1 \<le> po_retryCount pcfg"
    and "b = \<lparr>pb_correlationId = env_uuidv4 env, pb_userQuery = q,
              pb_language = js_or pl (defaultLanguage cfg)\<rparr>"
    and "c = \<lparr>ob_correlationId = env_uuidv4 env, ob_userId = u,
              ob_payload = \<lparr>aiParsed = a, concurrency = po_concurrencyOverride pcfg,
                            cacheInvalidation = po_enableCacheInvalidation pcfg\<rparr>\<rparr>"
  shows
    "(int k < retryCount cfg \<and> (\<forall>i<k. isl (post i b)) \<and> post k b = Inr v \<longrightarrow>
        settled (parseUserQuery cfg post env q pl) = Inr v \<and>
        posted (parseUserQuery cfg post env q pl) = replicate (k + 1) b) \<and>
     ((\<forall>i. int i < retryCount cfg \<longrightarrow> isl (post i b)) \<longrightarrow>
        isl (settled (parseUserQuery cfg post env q pl)) \<and>
        posted (parseUserQuery cfg post env q pl) = replicate (nat (retryCount cfg)) b) \<and>
     (int k < po_retryCount pcfg \<and> (\<forall>i<k. isl (ppost i c)) \<and> ppost k c = Inr w \<longrightarrow>
        settled (optimizePurchase pcfg ppost env a u) = Inr w \<and>
        posted (optimizePurchase pcfg ppost env a u) = replicate (k + 1) c) \<and>
     ((\<forall>i. int i < po_retryCount pcfg \<longrightarrow> isl (ppost i c)) \<longrightarrow>
        isl (settled (optimizePurchase pcfg ppost env a u)) \<and>
        posted (optimizePurchase pcfg ppost env a u) = replicate (nat (po_retryCount pcfg)) c)"
proof (intro conjI impI)
  assume h: "int k < retryCount cfg \<and> (\<forall>i<k. isl (post i b)) \<and> post k b = Inr v"
  have "parseUserQuery cfg post env q pl = \<lparr>posted = [] @ replicate (Suc k) b, settled = Inr v\<rparr>"
    unfolding parseUserQuery_def Let_def
    by (rule parseUserQuery_loop_success [OF assms(3)]) (use h in simp_all)
  then show "settled (parseUserQuery cfg post env q pl) = Inr v"
    and "posted (parseUserQuery cfg post env q pl) = replicate (k + 1) b"
    by simp_all
next
  assume h: "\<forall>i. int i < retryCount cfg \<longrightarrow> isl (post i b)"
  show "isl (settled (parseUserQuery cfg post env q pl))"
    and "posted (parseUserQuery cfg post env q pl) = replicate (nat (retryCount cfg)) b"
    unfolding parseUserQuery_def Let_def
    by (simp_all add: parseUserQuery_exhausted [where post = post, OF assms(3) assms(1) h])
next
  assume h: "int k < po_retryCount pcfg \<and> (\<forall>i<k. isl (ppost i c)) \<and> ppost k c = Inr w"
  have "optimizePurchase pcfg ppost env a u =
          \<lparr>posted = [] @ replicate (Suc k) c, settled = Inr w\<rparr>"
    unfolding optimizePurchase_def Let_def
    by (rule optimizePurchase_loop_success [OF assms(4)]) (use h in simp_all)
  then show "settled (optimizePurchase pcfg ppost env a u) = Inr w"
    and "posted (optimizePurchase pcfg ppost env a u) = replicate (k + 1) c"
    by simp_all
next
  assume h: "\<forall>i. int i < po_retryCount pcfg \<longrightarrow> isl (ppost i c)"
  show "isl (settled (optimizePurchase pcfg ppost env a u))"
    and "posted (optimizePurchase pcfg ppost env a u) = replicate (nat (po_retryCount pcfg)) c"
    unfolding optimizePurchase_def Let_def
    by (simp_all add: optimizePurchase_exhausted [where post = ppost, OF assms(4) assms(2) h])
qed

theorem retry_invocation_count_witness:
  "settled (parseUserQuery
      \<lparr>endpointUrl = ''https://api.xaven.com/ai-parse'', requestTimeoutMs = 5000,
        defaultLanguage = ''en'', retryCount = 3, additionalHeaders = []\<rparr>
      (\<lambda>i b. if i < 2 then Inl (Error ''Network error'')
             else Inr \<lparr>category = ''tablet'', brand = Some ''Samsung'', maxBudget = Some 800,
                       shippingUrgency = Some ''standard''\<rparr>)
      \<lparr>env_store = None, env_uuidv4 = ''test-correlation-id''\<rparr> ''I need a tablet'' None)
     = Inr \<lparr>category = ''tablet'', brand = Some ''Samsung'', maxBudget = Some 800,
            shippingUrgency = Some ''standard''\<rparr> \<and>
   length (posted (parseUserQuery
      \<lparr>endpointUrl = ''https://api.xaven.com/ai-parse'', requestTimeoutMs = 5000,
        defaultLanguage = ''en'', retryCount = 3, additionalHeaders = []\<rparr>
      (\<lambda>i b. if i < 2 then Inl (Error ''Network error'')
             else Inr \<lparr>category = ''tablet'', brand = Some ''Samsung'', maxBudget = Some 800,
                       shippingUrgency = Some ''standard''\<rparr>)
      \<lparr>env_store = None, env_uuidv4 = ''test-correlation-id''\<rparr> ''I need a tablet'' None)) = 3 \<and>
   isl (settled (parseUserQuery
      \<lparr>endpointUrl = ''https://api.xaven.com/ai-parse'', requestTimeoutMs = 5000,
        defaultLanguage = ''en'', retryCount = 2, additionalHeaders = []\<rparr>
      (\<lambda>i b. Inl (Error ''Service unavailable''))
      \<lparr>env_store = None, env_uuidv4 = ''test-correlation-id''\<rparr> ''I need a smartwatch'' None)) \<and>
   length (posted (parseUserQuery
      \<lparr>endpointUrl = ''https://api.xaven.com/ai-parse'', requestTimeoutMs = 5000,
        defaultLanguage = ''en'', retryCount = 2, additionalHeaders = []\<rparr>
      (\<lambda>i b. Inl (Error ''Service unavailable''))
      \<lparr>env_store = None, env_uuidv4 = ''test-correlation-id''\<rparr> ''I need a smartwatch'' None)) = 2 \<and>
   settled (optimizePurchase
      \<lparr>po_endpointUrl = ''https://api.xaven.com/purchase-optimize'', po_requestTimeoutMs = 7000,
        po_concurrencyOverride = None, po_enableCacheInvalidation = False, po_retryCount = 3,
        po_additionalHeaders = []\<rparr>
      (\<lambda>i b. if i < 2 then Inl (Error ''Network error'')
             else Inr \<lparr>bestOffer = None, offers = []\<rparr>)
      \<lparr>env_store = None, env_uuidv4 = ''test-correlation-id''\<rparr>
      \<lparr>category = ''tablet'', brand = None, maxBudget = None, shippingUrgency = None\<rparr> None)
     = Inr \<lparr>bestOffer = None, offers = []\<rparr> \<and>
   length (posted (optimizePurchase
      \<lparr>po_endpointUrl = ''https://api.xaven.com/purchase-optimize'', po_requestTimeoutMs = 7000,
        po_concurrencyOverride = None, po_enableCacheInvalidation = False, po_retryCount = 3,
        po_additionalHeaders = []\<rparr>
      (\<lambda>i b. if i < 2 then Inl (Error ''Network error'')
             else Inr \<lparr>bestOffer = None, offers = []\<rparr>)
      \<lparr>env_store = None, env_uuidv4 = ''test-correlation-id''\<rparr>
      \<lparr>category = ''tablet'', brand = None, maxBudget = None, shippingUrgency = None\<rparr> None)) = 3 \<and>
   isl (settled (optimizePurchase
      \<lparr>po_endpointUrl = ''https://api.xaven.com/purchase-optimize'', po_requestTimeoutMs = 7000,
        po_concurrencyOverride = None, po_enableCacheInvalidation = False, po_retryCount = 2,
        po_additionalHeaders = []\<rparr>
      (\<lambda>i b. Inl (Error ''Service unavailable''))
      \<lparr>env_store = None, env_uuidv4 = ''test-correlation-id''\<rparr>
      \<lparr>category = ''tablet'', brand = None, maxBudget = None, shippingUrgency = None\<rparr> None)) \<and>
   length (posted (optimizePurchase
      \<lparr>po_endpointUrl = ''https://api.xaven.com/purchase-optimize'', po_requestTimeoutMs = 7000,
        po_concurrencyOverride = None, po_enableCacheInvalidation = False, po_retryCount = 2,
        po_additionalHeaders = []\<rparr>
      (\<lambda>i b. Inl (Error ''Service unavailable''))
      \<lparr>env_store = None, env_uuidv4 = ''test-correlation-id''\<rparr>
      \<lparr>category = ''tablet'', brand = None, maxBudget = None, shippingUrgency = None\<rparr> None)) = 2"
  using retry_invocation_count
          [OF _ _ refl refl,
           of "\<lparr>endpointUrl = ''https://api.xaven.com/ai-parse'', requestTimeoutMs = 5000,
                 defaultLanguage = ''en'', retryCount = 3, additionalHeaders = []\<rparr>"
              "\<lparr>po_endpointUrl = ''https://api.xaven.com/purchase-optimize'',
                 po_requestTimeoutMs = 7000, po_concurrencyOverride = None,
                 po_enableCacheInvalidation = False, po_retryCount = 3,
                 po_additionalHeaders = []\<rparr>"
              2
              "\<lambda>i b. if i < 2 then Inl (Error ''Network error'')
                     else Inr \<lparr>category = ''tablet'', brand = Some ''Samsung'',
                               maxBudget = Some 800, shippingUrgency = Some ''standard''\<rparr>"
              "\<lparr>env_store = None, env_uuidv4 = ''test-correlation-id''\<rparr>"
              "''I need a tablet''" None
              "\<lparr>category = ''tablet'', brand = Some ''Samsung'', maxBudget = Some 800,
                 shippingUrgency = Some ''standard''\<rparr>"
              "\<lambda>i b. if i < 2 then Inl (Error ''Network error'')
                     else Inr \<lparr>bestOffer = None, offers = []\<rparr>"
              None
              "\<lparr>category = ''tablet'', brand = None, maxBudget = None, shippingUrgency = None\<rparr>"
              "\<lparr>bestOffer = None, offers = []\<rparr>"]
        retry_invocation_count
          [OF _ _ refl refl,
           of "\<lparr>endpointUrl = ''https://api.xaven.com/ai-parse'', requestTimeoutMs = 5000,
                 defaultLanguage = ''en'', retryCount = 2, additionalHeaders = []\<rparr>"
              "\<lparr>po_endpointUrl = ''https://api.xaven.com/purchase-optimize'',
                 po_requestTimeoutMs = 7000, po_concurrencyOverride = None,
                 po_enableCacheInvalidation = False, po_retryCount = 2,
                 po_additionalHeaders = []\<rparr>"
              0
              "\<lambda>i b. Inl (Error ''Service unavailable'')"
              "\<lparr>env_store = None, env_uuidv4 = ''test-correlation-id''\<rparr>"
              "''I need a smartwatch''" None
              undefined
              "\<lambda>i b. Inl (Error ''Service unavailable'')"
              None
              "\<lparr>category = ''tablet'', brand = None, maxBudget = None, shippingUrgency = None\<rparr>"
              undefined]
  by simp


text \<open>
  C6: for a retry ceiling of at least 1, when every invocation fails, the rejection of
  \<^verbatim>\<open>parseUserQuery\<close> and of \<^verbatim>\<open>optimizePurchase\<close> carries a message in which occur the
  decimal form of the number of invocations made, which is the configured \<^verbatim>\<open>retryCount\<close>,
  and the message of the error of the last invocation.
\<close>

theorem terminal_error_message:
  assumes "1 \<le> retryCount cfg" and "1 \<le> po_retryCount pcfg"
    and "b = \<lparr>pb_correlationId = env_uuidv4 env, pb_userQuery = q,
              pb_language = js_or pl (defaultLanguage cfg)\<rparr>"
    and "c = \<lparr>ob_correlationId = env_uuidv4 env, ob_userId = u,
              ob_payload = \<lparr>aiParsed = a, concurrency = po_concurrencyOverride pcfg,
                            cacheInvalidation = po_enableCacheInvalidation pcfg\<rparr>\<rparr>"
  shows
    "((\<forall>i. int i < retryCount cfg \<longrightarrow> isl (post i b)) \<longrightarrow>
        isl (settled (parseUserQuery cfg post env q pl)) \<and>
        int (length (posted (parseUserQuery cfg post env q pl))) = retryCount cfg \<and>
        sublist (show_int (int (length (posted (parseUserQuery cfg post env q pl)))))
          (message (projl (settled (parseUserQuery cfg post env q pl)))) \<and>
        sublist (message (projl (post (nat (retryCount cfg) - 1) b)))
          (message (projl (settled (parseUserQuery cfg post env q pl))))) \<and>
     ((\<forall>i. int i < po_retryCount pcfg \<longrightarrow> isl (ppost i c)) \<longrightarrow>
        isl (settled (optimizePurchase pcfg ppost env a u)) \<and>
        int (length (posted (optimizePurchase pcfg ppost env a u))) = po_retryCount pcfg \<and>
        sublist (show_int (int (length (posted (optimizePurchase pcfg ppost env a u)))))
          (message (projl (settled (optimizePurchase pcfg ppost env a u)))) \<and>
        sublist (message (projl (ppost (nat (po_retryCount pcfg) - 1) c)))
          (message (projl (settled (optimizePurchase pcfg ppost env a u)))))"
proof (intro conjI impI)
  assume h: "\<forall>i. int i < retryCount cfg \<longrightarrow> isl (post i b)"
  let ?R = "parseUserQuery cfg post env q pl"
  have R: "?R = \<lparr>posted = replicate (nat (retryCount cfg)) b,
      settled = Inl (Error (''[XavenAiEngine] parseUserQuery failed after '' @
                  show_int (retryCount cfg) @ '' attempts. Last error: '' @
                  message (projl (post (nat (retryCount cfg) - 1) b))))\<rparr>"
    unfolding parseUserQuery_def Let_def
    by (rule parseUserQuery_exhausted [where post = post, OF assms(3) assms(1) h])
  show "isl (settled ?R)" by (simp only: R client_run.simps sum.disc)
  show len: "int (length (posted ?R)) = retryCount cfg"
    using assms(1) by (simp add: R)
  have m: "message (projl (settled ?R)) =
           ''[XavenAiEngine] parseUserQuery failed after '' @
           show_int (retryCount cfg) @ '' attempts. Last error: '' @
           message (projl (post (nat (retryCount cfg) - 1) b))"
    by (simp only: R client_run.simps sum.sel js_error.sel)
  show "sublist (show_int (int (length (posted ?R)))) (message (projl (settled ?R)))"
    unfolding len m by (rule sublist_middle)
  show "sublist (message (projl (post (nat (retryCount cfg) - 1) b)))
          (message (projl (settled ?R)))"
    unfolding m by (rule sublist_end)
next
  assume h: "\<forall>i. int i < po_retryCount pcfg \<longrightarrow> isl (ppost i c)"
  let ?R = "optimizePurchase pcfg ppost env a u"
  have R: "?R = \<lparr>posted = replicate (nat (po_retryCount pcfg)) c,
      settled = Inl (Error (''[XavenPurchaseOptimizer] optimizePurchase failed after '' @
                  show_int (po_retryCount pcfg) @ '' attempts. Last error: '' @
                  message (projl (ppost (nat (po_retryCount pcfg) - 1) c))))\<rparr>"
    unfolding optimizePurchase_def Let_def
    by (rule optimizePurchase_exhausted [where post = ppost, OF assms(4) assms(2) h])
  show "isl (settled ?R)" by (simp only: R client_run.simps sum.disc)
  show len: "int (length (posted ?R)) = po_retryCount pcfg"
    using assms(2) by (simp add: R)
  have m: "message (projl (settled ?R)) =
           ''[XavenPurchaseOptimizer] optimizePurchase failed after '' @
           show_int (po_retryCount pcfg) @ '' attempts. Last error: '' @
           message (projl (ppost (nat (po_retryCount pcfg) - 1) c))"
    by (simp only: R client_run.simps sum.sel js_error.sel)
  show "sublist (show_int (int (length (posted ?R)))) (message (projl (settled ?R)))"
    unfolding len m by (rule sublist_middle)
  show "sublist (message (projl (ppost (nat (po_retryCount pcfg) - 1) c)))
          (message (projl (settled ?R)))"
    unfolding m by (rule sublist_end)
qed

theorem terminal_error_message_witness:
  "sublist ''2'' (message (projl (settled (parseUserQuery
      \<lparr>endpointUrl = ''https://api.xaven.com/ai-parse'', requestTimeoutMs = 5000,
        defaultLanguage = ''en'', retryCount = 2, additionalHeaders = []\<rparr>
      (\<lambda>i b. Inl (Error ''Service unavailable''))
      \<lparr>env_store = None, env_uuidv4 = ''test-correlation-id''\<rparr>
      ''I need a smartwatch'' None)))) \<and>
   sublist ''Service unavailable'' (message (projl (settled (parseUserQuery
      \<lparr>endpointUrl = ''https://api.xaven.com/ai-parse'', requestTimeoutMs = 5000,
        defaultLanguage = ''en'', retryCount = 2, additionalHeaders = []\<rparr>
      (\<lambda>i b. Inl (Error ''Service unavailable''))
      \<lparr>env_store = None, env_uuidv4 = ''test-correlation-id''\<rparr>
      ''I need a smartwatch'' None)))) \<and>
   sublist ''2'' (message (projl (settled (optimizePurchase
      \<lparr>po_endpointUrl = ''https://api.xaven.com/purchase-optimize'', po_requestTimeoutMs = 7000,
        po_concurrencyOverride = None, po_enableCacheInvalidation = False, po_retryCount = 2,
        po_additionalHeaders = []\<rparr>
      (\<lambda>i b. Inl (Error ''Service unavailable''))
      \<lparr>env_store = None, env_uuidv4 = ''test-correlation-id''\<rparr>
      \<lparr>category = ''watch'', brand = None, maxBudget = None, shippingUrgency = None\<rparr>
      None)))) \<and>
   sublist ''Service unavailable'' (message (projl (settled (optimizePurchase
      \<lparr>po_endpointUrl = ''https://api.xaven.com/purchase-optimize'', po_requestTimeoutMs = 7000,
        po_concurrencyOverride = None, po_enableCacheInvalidation = False, po_retryCount = 2,
        po_additionalHeaders = []\<rparr>
      (\<lambda>i b. Inl (Error ''Service unavailable''))
      \<lparr>env_store = None, env_uuidv4 = ''test-correlation-id''\<rparr>
      \<lparr>category = ''watch'', brand = None, maxBudget = None, shippingUrgency = None\<rparr>
      None))))"
proof -
  have two: "show_int 2 = ''2''" by code_simp
  show ?thesis
    using terminal_error_message
            [OF _ _ refl refl,
             where cfg = "\<lparr>endpointUrl = ''https://api.xaven.com/ai-parse'',
                            requestTimeoutMs = 5000, defaultLanguage = ''en'', retryCount = 2,
                            additionalHeaders = []\<rparr>"
               and pcfg = "\<lparr>po_endpointUrl = ''https://api.xaven.com/purchase-optimize'',
                             po_requestTimeoutMs = 7000, po_concurrencyOverride = None,
                             po_enableCacheInvalidation = False, po_retryCount = 2,
                             po_additionalHeaders = []\<rparr>"
               and post = "\<lambda>i b. Inl (Error ''Service unavailable'')"
               and ppost = "\<lambda>i b. Inl (Error ''Service unavailable'')"
               and env = "\<lparr>env_store = None, env_uuidv4 = ''test-correlation-id''\<rparr>"
               and q = "''I need a smartwatch''" and pl = None and u = None
               and a = "\<lparr>category = ''watch'', brand = None, maxBudget = None,
                          shippingUrgency = None\<rparr>"]
          two
    by (simp cong: conj_cong)
qed


text \<open>
  C10: \<^verbatim>\<open>parseUserQuery\<close> called with a falsy \<^verbatim>\<open>preferredLanguage\<close> (absent, or the empty
  string) sends the configured default language in every body it posts, and any other
  \<^verbatim>\<open>preferredLanguage\<close> is sent as given; with a retry ceiling of at least 1 a body is
  posted.
\<close>

theorem preferred_language_fallback:
  assumes "1 \<le> retryCount cfg"
  shows "posted (parseUserQuery cfg post env q pl) \<noteq> [] \<and>
         (\<forall>b \<in> set (posted (parseUserQuery cfg post env q pl)).
            pb_userQuery b = q \<and>
            pb_language b = (if pl = None \<or> pl = Some [] then defaultLanguage cfg else the pl))"
proof -
  obtain n where n: "posted (parseUserQuery cfg post env q pl) =
      [] @ replicate n \<lparr>pb_correlationId = env_uuidv4 env, pb_userQuery = q,
                        pb_language = js_or pl (defaultLanguage cfg)\<rparr>"
    and pos: "int 0 < retryCount cfg \<longrightarrow> 0 < n"
    unfolding parseUserQuery_def Let_def using parseUserQuery_loop_posted [OF refl] by blast
  have "0 < n" using pos assms by simp
  moreover have "js_or pl (defaultLanguage cfg) =
                 (if pl = None \<or> pl = Some [] then defaultLanguage cfg else the pl)"
    by (cases pl) (simp_all add: js_or_def)
  ultimately show ?thesis using n by simp
qed

theorem preferred_language_fallback_witness:
  "posted (parseUserQuery
      \<lparr>endpointUrl = ''https://api.xaven.com/ai-parse'', requestTimeoutMs = 5000,
        defaultLanguage = ''en'', retryCount = 2, additionalHeaders = []\<rparr>
      (\<lambda>i b. Inr \<lparr>category = ''laptop'', brand = None, maxBudget = Some 1500,
                   shippingUrgency = None\<rparr>)
      \<lparr>env_store = None, env_uuidv4 = ''test-correlation-id''\<rparr>
      ''Need a laptop under 1500'' (Some [])) \<noteq> [] \<and>
   pb_language (hd (posted (parseUserQuery
      \<lparr>endpointUrl = ''https://api.xaven.com/ai-parse'', requestTimeoutMs = 5000,
        defaultLanguage = ''en'', retryCount = 2, additionalHeaders = []\<rparr>
      (\<lambda>i b. Inr \<lparr>category = ''laptop'', brand = None, maxBudget = Some 1500,
                   shippingUrgency = None\<rparr>)
      \<lparr>env_store = None, env_uuidv4 = ''test-correlation-id''\<rparr>
      ''Need a laptop under 1500'' (Some [])))) = ''en'' \<and>
   pb_language (hd (posted (parseUserQuery
      \<lparr>endpointUrl = ''https://api.xaven.com/ai-parse'', requestTimeoutMs = 5000,
        defaultLanguage = ''en'', retryCount = 2, additionalHeaders = []\<rparr>
      (\<lambda>i b. Inr \<lparr>category = ''laptop'', brand = None, maxBudget = Some 1500,
                   shippingUrgency = None\<rparr>)
      \<lparr>env_store = None, env_uuidv4 = ''test-correlation-id''\<rparr>
      ''Need a laptop under 1500'' (Some ''es'')))) = ''es''"
proof -
  let ?cfg = "\<lparr>endpointUrl = ''https://api.xaven.com/ai-parse'', requestTimeoutMs = 5000,
                defaultLanguage = ''en'', retryCount = 2, additionalHeaders = []\<rparr>"
  let ?post = "\<lambda>(i::nat) (b::parse_body).
                 (Inr \<lparr>category = ''laptop'', brand = None, maxBudget = Some 1500,
                       shippingUrgency = None\<rparr> :: js_error + XavenAiParsedResult)"
  let ?env = "\<lparr>env_store = None, env_uuidv4 = ''test-correlation-id''\<rparr>"
  let ?R = "\<lambda>pl. posted (parseUserQuery ?cfg ?post ?env ''Need a laptop under 1500'' pl)"
  have empty: "?R (Some []) \<noteq> [] \<and> (\<forall>b \<in> set (?R (Some [])). pb_language b = ''en'')"
    using preferred_language_fallback
            [of ?cfg ?post ?env "''Need a laptop under 1500''" "Some []"]
    by simp
  have given: "?R (Some ''es'') \<noteq> [] \<and> (\<forall>b \<in> set (?R (Some ''es'')). pb_language b = ''es'')"
    using preferred_language_fallback
            [of ?cfg ?post ?env "''Need a laptop under 1500''" "Some ''es''"]
    by simp
  from empty given show ?thesis
    by (simp add: hd_in_set)
qed


text \<open>
  C5, as the code has it: the \<^verbatim>\<open>correlationId\<close> of every body posted by \<^verbatim>\<open>parseUserQuery\<close>
  and by \<^verbatim>\<open>optimizePurchase\<close> is the identifier that \<^verbatim>\<open>uuidv4()\<close> generated for that
  call, the same for every attempt, and neither method reads the context store: with
  any other active context, or none, it posts the same bodies and settles the same way.
\<close>

theorem payload_correlation_id_generated:
  assumes "1 \<le> retryCount cfg" and "1 \<le> po_retryCount pcfg"
  shows "posted (parseUserQuery cfg post env q pl) \<noteq> [] \<and>
         (\<forall>b \<in> set (posted (parseUserQuery cfg post env q pl)).
            pb_correlationId b = env_uuidv4 env) \<and>
         posted (optimizePurchase pcfg ppost env a u) \<noteq> [] \<and>
         (\<forall>c \<in> set (posted (optimizePurchase pcfg ppost env a u)).
            ob_correlationId c = env_uuidv4 env) \<and>
         parseUserQuery cfg post (env\<lparr>env_store := s\<rparr>) q pl =
           parseUserQuery cfg post env q pl \<and>
         optimizePurchase pcfg ppost (env\<lparr>env_store := s\<rparr>) a u =
           optimizePurchase pcfg ppost env a u"
proof -
  obtain n where n: "posted (parseUserQuery cfg post env q pl) =
      [] @ replicate n \<lparr>pb_correlationId = env_uuidv4 env, pb_userQuery = q,
                        pb_language = js_or pl (defaultLanguage cfg)\<rparr>"
    and pos: "int 0 < retryCount cfg \<longrightarrow> 0 < n"
    unfolding parseUserQuery_def Let_def using parseUserQuery_loop_posted [OF refl] by blast
  obtain m where m: "posted (optimizePurchase pcfg ppost env a u) =
      [] @ replicate m \<lparr>ob_correlationId = env_uuidv4 env, ob_userId = u,
                        ob_payload = \<lparr>aiParsed = a, concurrency = po_concurrencyOverride pcfg,
                                      cacheInvalidation = po_enableCacheInvalidation pcfg\<rparr>\<rparr>"
    and pos': "int 0 < po_retryCount pcfg \<longrightarrow> 0 < m"
    unfolding optimizePurchase_def Let_def using optimizePurchase_loop_posted [OF refl] by blast
  have "0 < n" "0 < m" using pos pos' assms by simp_all
  then show ?thesis
    using n m by (simp add: parseUserQuery_def optimizePurchase_def)
qed

theorem payload_correlation_id_generated_witness:
  "pb_correlationId (hd (posted (parseUserQuery
      \<lparr>endpointUrl = ''https://api.xaven.com/ai-parse'', requestTimeoutMs = 5000,
        defaultLanguage = ''en'', retryCount = 2, additionalHeaders = []\<rparr>
      (\<lambda>i b. Inl (Error ''Service unavailable''))
      \<lparr>env_store = Some \<lparr>correlationId = ''req-42'', userId = None\<rparr>,
        env_uuidv4 = ''3f2b8c1e-9d4a-4e7b-a1c5-0f6d2e8b7a94''\<rparr>
      ''Need a laptop under 1500'' None)))
     = ''3f2b8c1e-9d4a-4e7b-a1c5-0f6d2e8b7a94'' \<and>
   ob_correlationId (hd (posted (optimizePurchase
      \<lparr>po_endpointUrl = ''https://api.xaven.com/purchase-optimize'', po_requestTimeoutMs = 7000,
        po_concurrencyOverride = None, po_enableCacheInvalidation = False, po_retryCount = 2,
        po_additionalHeaders = []\<rparr>
      (\<lambda>i b. Inr \<lparr>bestOffer = None, offers = []\<rparr>)
      \<lparr>env_store = Some \<lparr>correlationId = ''req-42'', userId = None\<rparr>,
        env_uuidv4 = ''3f2b8c1e-9d4a-4e7b-a1c5-0f6d2e8b7a94''\<rparr>
      \<lparr>category = ''laptop'', brand = None, maxBudget = Some 1500, shippingUrgency = None\<rparr>
      (Some ''user-123''))))
     = ''3f2b8c1e-9d4a-4e7b-a1c5-0f6d2e8b7a94''"
proof -
  let ?cfg = "\<lparr>endpointUrl = ''https://api.xaven.com/ai-parse'', requestTimeoutMs = 5000,
                defaultLanguage = ''en'', retryCount = 2, additionalHeaders = []\<rparr>"
  let ?pcfg = "\<lparr>po_endpointUrl = ''https://api.xaven.com/purchase-optimize'',
                 po_requestTimeoutMs = 7000, po_concurrencyOverride = None,
                 po_enableCacheInvalidation = False, po_retryCount = 2,
                 po_additionalHeaders = []\<rparr>"
  let ?post = "\<lambda>(i::nat) (b::parse_body).
                 (Inl (Error ''Service unavailable'') :: js_error + XavenAiParsedResult)"
  let ?ppost = "\<lambda>(i::nat) (b::optimize_body).
                  (Inr \<lparr>bestOffer = None, offers = []\<rparr> :: js_error + XavenOptimizationResult)"
  let ?env = "\<lparr>env_store = Some \<lparr>correlationId = ''req-42'', userId = None\<rparr>,
                env_uuidv4 = ''3f2b8c1e-9d4a-4e7b-a1c5-0f6d2e8b7a94''\<rparr>"
  let ?a = "\<lparr>category = ''laptop'', brand = None, maxBudget = Some 1500,
              shippingUrgency = None\<rparr>"
  have "posted (parseUserQuery ?cfg ?post ?env ''Need a laptop under 1500'' None) \<noteq> [] \<and>
        (\<forall>b \<in> set (posted (parseUserQuery ?cfg ?post ?env ''Need a laptop under 1500'' None)).
           pb_correlationId b = ''3f2b8c1e-9d4a-4e7b-a1c5-0f6d2e8b7a94'') \<and>
        posted (optimizePurchase ?pcfg ?ppost ?env ?a (Some ''user-123'')) \<noteq> [] \<and>
        (\<forall>c \<in> set (posted (optimizePurchase ?pcfg ?ppost ?env ?a (Some ''user-123''))).
           ob_correlationId c = ''3f2b8c1e-9d4a-4e7b-a1c5-0f6d2e8b7a94'')"
    using payload_correlation_id_generated
            [of ?cfg ?pcfg ?post ?env "''Need a laptop under 1500''" None ?ppost ?a
                "Some ''user-123''"]
    by simp
  then show ?thesis
    by (simp add: hd_in_set)
qed

text \<open>
  The claim as written fails: in a request whose active context has the correlation id
  \<open>req-42\<close>, \<^verbatim>\<open>parseUserQuery\<close> posts one body, and its \<^verbatim>\<open>correlationId\<close> is the generated
  identifier, not \<open>req-42\<close>.
\<close>

theorem payload_correlation_id_counterexample:
  "getCorrelationId (Some \<lparr>correlationId = ''req-42'', userId = None\<rparr>) = Some ''req-42'' \<and>
   posted (parseUserQuery
      \<lparr>endpointUrl = ''https://api.xaven.com/ai-parse'', requestTimeoutMs = 5000,
        defaultLanguage = ''en'', retryCount = 2, additionalHeaders = []\<rparr>
      (\<lambda>i b. Inr \<lparr>category = ''laptop'', brand = None, maxBudget = Some 1500,
                   shippingUrgency = None\<rparr>)
      \<lparr>env_store = Some \<lparr>correlationId = ''req-42'', userId = None\<rparr>,
        env_uuidv4 = ''3f2b8c1e-9d4a-4e7b-a1c5-0f6d2e8b7a94''\<rparr>
      ''Need a laptop under 1500'' None)
     = [\<lparr>pb_correlationId = ''3f2b8c1e-9d4a-4e7b-a1c5-0f6d2e8b7a94'',
         pb_userQuery = ''Need a laptop under 1500'', pb_language = ''en''\<rparr>] \<and>
   ''3f2b8c1e-9d4a-4e7b-a1c5-0f6d2e8b7a94'' \<noteq> ''req-42''"
  by (simp add: getCorrelationId_def parseUserQuery_def js_or_def parseUserQuery_loop.simps)


section \<open>Properties of the cached fetch\<close>

lemma fetchWithCache_hit:
  "cache_get cache now url = Some v \<Longrightarrow> truthy v \<Longrightarrow>
   fetchWithCache g cache now arrival url =
     \<lparr>fetched = [], scheduled = 0, resolved = Inr v, cache_after = cache\<rparr>"
  by (simp add: fetchWithCache_def Let_def)

lemma fetchWithCache_miss:
  "\<forall>v. cache_get cache now url = Some v \<longrightarrow> \<not> truthy v \<Longrightarrow>
   fetchWithCache g cache now arrival url =
     \<lparr>fetched = [url], scheduled = 1, resolved = fst (fetch_task g cache arrival url),
      cache_after = snd (fetch_task g cache arrival url)\<rparr>"
  by (cases "cache_get cache now url")
     (simp_all add: fetchWithCache_def Let_def split: prod.splits)

lemma cache_get_after_set:
  "cache_get (cache_set cache arrival url v) t url =
     (if t < arrival + 10000 then Some v else None)"
  by (simp add: cache_get_def cache_set_def stdTTL_def)

lemma cache_miss_persists:
  "\<forall>v. cache_get cache now url = Some v \<longrightarrow> \<not> truthy v \<Longrightarrow> now \<le> t \<Longrightarrow>
   \<forall>v. cache_get cache t url = Some v \<longrightarrow> \<not> truthy v"
  by (auto simp: cache_get_def split: option.splits if_splits)

text \<open>
  While the cached body is truthy the function is a cache-aside store. When the lookup
  finds a live entry whose value is truthy, \<^verbatim>\<open>fetchWithCache\<close> returns that value, calls
  \<^verbatim>\<open>axios.get\<close> not at all and hands nothing to the gate. When a first call misses and the
  response is truthy, a second call for the same URL before the entry expires makes no
  request, and a call after the TTL of 10 seconds has elapsed since the write makes a
  request again.
\<close>

lemma truthy_entry_served:
  "(cache_get cache now url = Some v \<and> truthy v \<longrightarrow>
      fetchWithCache g cache now arrival url =
        \<lparr>fetched = [], scheduled = 0, resolved = Inr v, cache_after = cache\<rparr>) \<and>
   ((\<forall>w. cache_get cache now url = Some w \<longrightarrow> \<not> truthy w) \<and> g url = Inr v \<and> truthy v \<and>
    arrival \<le> t2 \<and> t2 < arrival + 10000 \<and> arrival + 10000 < t3 \<longrightarrow>
      fetched (fetchWithCache g cache now arrival url) = [url] \<and>
      resolved (fetchWithCache g cache now arrival url) = Inr v \<and>
      fetchWithCache g2 (cache_after (fetchWithCache g cache now arrival url)) t2 a2 url =
        \<lparr>fetched = [], scheduled = 0, resolved = Inr v,
         cache_after = cache_after (fetchWithCache g cache now arrival url)\<rparr> \<and>
      fetched (fetchWithCache g3 (cache_after (fetchWithCache g cache now arrival url))
                 t3 a3 url) = [url])"
proof (intro conjI impI)
  assume "cache_get cache now url = Some v \<and> truthy v"
  then show "fetchWithCache g cache now arrival url =
      \<lparr>fetched = [], scheduled = 0, resolved = Inr v, cache_after = cache\<rparr>"
    by (simp add: fetchWithCache_hit)
next
  assume h: "(\<forall>w. cache_get cache now url = Some w \<longrightarrow> \<not> truthy w) \<and> g url = Inr v \<and>
             truthy v \<and> arrival \<le> t2 \<and> t2 < arrival + 10000 \<and> arrival + 10000 < t3"
  let ?R = "fetchWithCache g cache now arrival url"
  have R: "?R = \<lparr>fetched = [url], scheduled = 1, resolved = Inr v,
                 cache_after = cache_set cache arrival url v\<rparr>"
    using h by (simp add: fetchWithCache_miss fetch_task_def)
  show "fetched ?R = [url]" and "resolved ?R = Inr v"
    by (simp_all add: R)
  have live: "cache_get (cache_after ?R) t2 url = Some v"
    using h by (simp add: R cache_get_after_set)
  show "fetchWithCache g2 (cache_after ?R) t2 a2 url =
      \<lparr>fetched = [], scheduled = 0, resolved = Inr v, cache_after = cache_after ?R\<rparr>"
    using live h by (simp add: fetchWithCache_hit)
  have gone: "cache_get (cache_after ?R) t3 url = None"
    using h by (simp add: R cache_get_after_set)
  show "fetched (fetchWithCache g3 (cache_after ?R) t3 a3 url) = [url]"
    using gone by (simp add: fetchWithCache_miss)
qed

text \<open>
  C3: a lookup for a key with a live entry is to return the entry's value without a
  request and without the gate. The code writes every response body to the cache, a
  \<^verbatim>\<open>null\<close> body too, and then tests the cached value with \<^verbatim>\<open>if (cached)\<close>, so it cannot
  serve a live entry whose value is falsy. Evaluated from an empty cache with a URL whose
  body is \<^verbatim>\<open>null\<close>: the first call writes the entry, which expires at 10040; one
  millisecond after the write the lookup finds it live, and the second call requests the
  URL again and hands a task to the gate.
\<close>

theorem cache_falsy_entry_refetched:
  "cache_after (fetchWithCache (\<lambda>u. Inr JNull) Map.empty 0 40 ''https://api.xavenai.com//456'')
     ''https://api.xavenai.com//456'' = Some \<lparr>entry_value = JNull, expiresAt = 10040\<rparr> \<and>
   cache_get
     (cache_after (fetchWithCache (\<lambda>u. Inr JNull) Map.empty 0 40 ''https://api.xavenai.com//456''))
     41 ''https://api.xavenai.com//456'' = Some JNull \<and>
   fetched (fetchWithCache (\<lambda>u. Inr JNull)
     (cache_after (fetchWithCache (\<lambda>u. Inr JNull) Map.empty 0 40 ''https://api.xavenai.com//456''))
     41 80 ''https://api.xavenai.com//456'') = [''https://api.xavenai.com//456''] \<and>
   scheduled (fetchWithCache (\<lambda>u. Inr JNull)
     (cache_after (fetchWithCache (\<lambda>u. Inr JNull) Map.empty 0 40 ''https://api.xavenai.com//456''))
     41 80 ''https://api.xavenai.com//456'') = 1"
  by (simp add: fetchWithCache_def Let_def fetch_task_def cache_get_def cache_set_def stdTTL_def)

text \<open>
  C4: when the lookup is a miss and \<^verbatim>\<open>axios.get\<close> rejects, \<^verbatim>\<open>fetchWithCache\<close> rejects with
  that same error after one request and leaves the cache as it was; any later call for
  the URL on that cache requests it again.
\<close>

theorem failed_fetch_not_cached:
  assumes "\<forall>v. cache_get cache now url = Some v \<longrightarrow> \<not> truthy v"
    and "g url = Inl err"
  shows "resolved (fetchWithCache g cache now arrival url) = Inl err \<and>
         fetched (fetchWithCache g cache now arrival url) = [url] \<and>
         cache_after (fetchWithCache g cache now arrival url) = cache \<and>
         (now \<le> t \<longrightarrow>
            fetched (fetchWithCache g2 (cache_after (fetchWithCache g cache now arrival url))
                       t a2 url) = [url])"
proof -
  let ?R = "fetchWithCache g cache now arrival url"
  have R: "?R = \<lparr>fetched = [url], scheduled = 1, resolved = Inl err, cache_after = cache\<rparr>"
    using assms by (simp add: fetchWithCache_miss fetch_task_def)
  have "fetched (fetchWithCache g2 cache t a2 url) = [url]" if "now \<le> t"
    using cache_miss_persists [OF assms(1) that] by (simp add: fetchWithCache_miss)
  then show ?thesis by (simp add: R)
qed

theorem failed_fetch_not_cached_witness:
  "resolved (fetchWithCache (\<lambda>u. Inl (Error ''Request failed with status code 503''))
      Map.empty 0 40 ''https://api.xavenai.com//123'')
     = Inl (Error ''Request failed with status code 503'') \<and>
   cache_after (fetchWithCache (\<lambda>u. Inl (Error ''Request failed with status code 503''))
      Map.empty 0 40 ''https://api.xavenai.com//123'') = Map.empty \<and>
   fetched (fetchWithCache (\<lambda>u. Inr (JObject [(''id'', JNumber 123)]))
      (cache_after (fetchWithCache (\<lambda>u. Inl (Error ''Request failed with status code 503''))
         Map.empty 0 40 ''https://api.xavenai.com//123''))
      50 90 ''https://api.xavenai.com//123'') = [''https://api.xavenai.com//123'']"
proof -
  have none: "\<forall>v. cache_get Map.empty 0 ''https://api.xavenai.com//123'' = Some v \<longrightarrow> \<not> truthy v"
    by (simp add: cache_get_def)
  show ?thesis
    using failed_fetch_not_cached
            [OF none,
             of "\<lambda>u. Inl (Error ''Request failed with status code 503'')"
                "Error ''Request failed with status code 503''" 40 50
                "\<lambda>u. Inr (JObject [(''id'', JNumber 123)])" 90]
    by (simp cong: conj_cong)
qed


end
